theory Spec2Isabelle
  imports Main "HOL-Library.Multiset"
begin

section \<open>Python values used by the window code\<close>

text \<open>
  Exceptions of the source that reach a caller. \<open>KeyError\<close> and \<open>ValueError\<close> are
  always caught where they are raised (\<open>try ... except\<close>), so they appear as branches
  of the functions below and never as results.
\<close>

datatype py_error = AttributeError

text \<open>Truthiness of an optional integer: \<open>None\<close> and \<open>0\<close> are false.\<close>

fun truthy :: "int option \<Rightarrow> bool" where
  "truthy None = False"
| "truthy (Some n) = (n \<noteq> 0)"

text \<open>
  \<open>str.lower()\<close>. Strings are byte lists; only the ASCII capitals change. (No non-ASCII
  code point of Python lowers to one of the letters of \<open>false\<close>, so for the comparison
  below the bytes of a UTF-8 string behave as its code points do.)
\<close>

definition lower_char :: "char \<Rightarrow> char" where
  "lower_char c =
     (case map_of (zip ''ABCDEFGHIJKLMNOPQRSTUVWXYZ'' ''abcdefghijklmnopqrstuvwxyz'') c of
        None \<Rightarrow> c
      | Some l \<Rightarrow> l)"

definition str_lower :: "string \<Rightarrow> string" where
  "str_lower s = map lower_char s"

section \<open>Gateways and folder rows\<close>

text \<open>
  A gateway object is owned by the gateway subsystem. The window reads \<open>name\<close>,
  \<open>zkap_auth_required\<close>, \<open>monitor.zkap_checker.zkaps_remaining\<close> and \<open>magic_folders\<close>
  (only its emptiness). Python compares gateways by object identity; the model compares
  the records, which carry the node directory, one per gateway.
\<close>

record gateway =
  nodedir :: string
  name :: string
  zkap_auth_required :: bool
  zkaps_remaining :: "int option"
  magic_folders :: "string list"

text \<open>
  A row of a folders model: the \<open>Qt.UserRole\<close> data of column 1 (the status; 1 is
  "Syncing") and of column 2 (the last-modified time); either may be unset.
\<close>

record folder_row =
  status :: "int option"
  mtime :: "int option"

text \<open>The widgets that \<open>CentralWidget.add_*_view\<close> creates for a gateway.\<close>

datatype widget = FoldersWidget gateway | HistoryView gateway | ZKAPWidget gateway

type_synonym news_message = "gateway \<times> string \<times> string"

section \<open>The main window\<close>

text \<open>
  The state of \<open>MainWindow\<close> together with the objects it mutates: the combo box (the
  user data of its items and the current index), the central stacked widget (its three
  dictionaries, the folder models of \<open>views\<close>, the current widget), the tool buttons,
  and of \<open>gui\<close> the unread list and the number of \<open>systray.update()\<close> calls.
  \<open>msgboxes_shown\<close> logs \<open>msgbox.show()\<close>, \<open>single_shots\<close> holds the callbacks given to
  \<open>QTimer.singleShot(0, ...)\<close> that have not run yet.

  \<open>invites_button\<close> exists exactly when \<open>grid_invites_enabled\<close>, \<open>invite_action\<close>
  exactly when \<open>\<not> grid_invites_enabled \<and> invites_enabled\<close> (\<open>__init__\<close> creates them under
  these conditions and the flags never change afterwards); the field of an absent
  attribute is not read.
\<close>

record main_window =
  grid_invites_enabled :: bool
  invites_enabled :: bool
  multiple_grids_enabled :: bool
  window_title :: string
  visible :: bool
  welcome_dialogs_shown :: nat
  combo_items :: "gateway option list"
  combo_current_index :: int
  combo_box_enabled :: bool
  views :: "folder_row list list"
  folders_views :: "gateway \<rightharpoonup> widget"
  history_views :: "gateway \<rightharpoonup> widget"
  zkap_views :: "gateway \<rightharpoonup> widget"
  current_widget :: "widget option"
  folder_button_enabled :: bool
  invites_button_enabled :: bool
  invite_action_enabled :: bool
  history_button_enabled :: bool
  recovery_button_enabled :: bool
  folders_button_enabled :: bool
  zkaps_button_enabled :: bool
  folders_button_checked :: bool
  zkaps_button_checked :: bool
  history_button_checked :: bool
  pending_news_message :: "news_message option"
  unread_messages :: "news_message list"
  systray_updates :: nat
  msgboxes_shown :: "news_message list"
  single_shots :: "news_message list"

text \<open>\<open>combo_box.currentData()\<close>: the gateway of the current item, \<open>None\<close> for the
  separator, for "Add new..." and when there is no current item.\<close>

definition currentData :: "main_window \<Rightarrow> gateway option" where
  "currentData w =
     (let i = combo_current_index w in
      if 0 \<le> i \<and> i < int (length (combo_items w)) then combo_items w ! nat i else None)"

subsection \<open>Feature flags read in \<open>__init__\<close>\<close>

text \<open>
  \<open>settings\<close> is a dictionary of dictionaries of strings; \<open>dict.get\<close> is \<open>map_of\<close>, and
  an empty dictionary is false.
\<close>

type_synonym settings = "(string \<times> (string \<times> string) list) list"

definition flag_is_false :: "string option \<Rightarrow> bool" where
  "flag_is_false v = (case v of None \<Rightarrow> False | Some s \<Rightarrow> s \<noteq> [] \<and> str_lower s = ''false'')"

text \<open>
  One of the three tests of \<open>__init__\<close>: the flag starts \<open>True\<close> and becomes \<open>False\<close>
  when \<open>features_settings\<close> is true, the option is a non-empty string and its lower
  case is \<open>false\<close>.
\<close>

definition feature_enabled :: "settings \<Rightarrow> string \<Rightarrow> bool" where
  "feature_enabled settings opt =
     (case map_of settings ''features'' of
        None \<Rightarrow> True
      | Some features_settings \<Rightarrow>
          if features_settings = [] then True
          else \<not> flag_is_false (map_of features_settings opt))"

definition MainWindow_init :: "string \<Rightarrow> settings \<Rightarrow> main_window" where
  "MainWindow_init APP_NAME settings =
         \<lparr> grid_invites_enabled = feature_enabled settings ''grid_invites'',
           invites_enabled = feature_enabled settings ''invites'',
           multiple_grids_enabled = feature_enabled settings ''multiple_grids'',
           window_title = APP_NAME,
           visible = False,
           welcome_dialogs_shown = 0,
           combo_items = [None, None],
           combo_current_index = 0,
           combo_box_enabled = True,
           views = [],
           folders_views = Map.empty,
           history_views = Map.empty,
           zkap_views = Map.empty,
           current_widget = None,
           folder_button_enabled = False,
           invites_button_enabled = True,
           invite_action_enabled = True,
           history_button_enabled = False,
           recovery_button_enabled = True,
           folders_button_enabled = False,
           zkaps_button_enabled = False,
           folders_button_checked = False,
           zkaps_button_checked = False,
           history_button_checked = False,
           pending_news_message = None,
           unread_messages = [],
           systray_updates = 0,
           msgboxes_shown = [],
           single_shots = [] \<rparr>"

subsection \<open>\<open>maybe_enable_actions\<close>\<close>

text \<open>
  The \<open>try: self.invite_action.setEnabled(b) except AttributeError: pass\<close> of the source
  acts when the attribute exists, that is when \<open>invites_enabled\<close> (this branch is
  reached only when \<open>grid_invites_enabled\<close> is false).
\<close>

definition set_invite_enabled :: "bool \<Rightarrow> main_window \<Rightarrow> main_window" where
  "set_invite_enabled b w =
     (if grid_invites_enabled w then w\<lparr>invites_button_enabled := b\<rparr>
      else if invites_enabled w then w\<lparr>invite_action_enabled := b\<rparr>
      else w)"

definition maybe_enable_actions :: "main_window \<Rightarrow> py_error + main_window" where
  "maybe_enable_actions w =
     (case currentData w of
        None \<Rightarrow> Inl AttributeError
      | Some gateway \<Rightarrow>
          if zkap_auth_required gateway \<and> \<not> truthy (zkaps_remaining gateway) then
            (let w1 = set_invite_enabled False
                   (w\<lparr>folder_button_enabled := False,
                      combo_box_enabled := False,
                      history_button_enabled := False,
                      recovery_button_enabled := False,
                      folders_button_enabled := False,
                      zkaps_button_enabled := False\<rparr>)
             in if magic_folders gateway = [] then
                  (case zkap_views w1 gateway of
                     None \<Rightarrow> Inr w1
                   | Some zv \<Rightarrow>
                       Inr (w1\<lparr>current_widget := Some zv,
                               zkaps_button_checked := True,
                               history_button_checked := False,
                               folders_button_checked := False\<rparr>))
                else Inr w1)
          else
            Inr (set_invite_enabled True
                   (w\<lparr>folder_button_enabled := True,
                      combo_box_enabled := True,
                      history_button_enabled := True,
                      recovery_button_enabled := True,
                      folders_button_enabled := True,
                      zkaps_button_enabled := True\<rparr>)))"

subsection \<open>Switching views\<close>

text \<open>
  \<open>current_view\<close> returns the view inside the folders widget of the current gateway, or
  \<open>None\<close> on \<open>KeyError\<close>; the callers only test it.
\<close>

definition current_view :: "main_window \<Rightarrow> widget option" where
  "current_view w =
     (case currentData w of
        None \<Rightarrow> None
      | Some gateway \<Rightarrow> folders_views w gateway)"

definition set_current_grid_status :: "main_window \<Rightarrow> py_error + main_window" where
  "set_current_grid_status w =
     (case current_view w of
        None \<Rightarrow> Inr w
      | Some v \<Rightarrow> maybe_enable_actions (w\<lparr>systray_updates := Suc (systray_updates w)\<rparr>))"

text \<open>
  In the three functions below the dictionary lookup raises \<open>KeyError\<close> when the current
  data is \<open>None\<close> (never a key) or a gateway without that panel; the function then
  returns at once.
\<close>

definition show_folders_view :: "main_window \<Rightarrow> py_error + main_window" where
  "show_folders_view w =
     (case currentData w of
        None \<Rightarrow> Inr w
      | Some gateway \<Rightarrow>
          (case folders_views w gateway of
             None \<Rightarrow> Inr w
           | Some fv \<Rightarrow>
               set_current_grid_status
                 (w\<lparr>current_widget := Some fv,
                    folders_button_checked := True,
                    zkaps_button_checked := False,
                    history_button_checked := False\<rparr>)))"

definition show_history_view :: "main_window \<Rightarrow> py_error + main_window" where
  "show_history_view w =
     (case currentData w of
        None \<Rightarrow> Inr w
      | Some gateway \<Rightarrow>
          (case history_views w gateway of
             None \<Rightarrow> Inr w
           | Some hv \<Rightarrow>
               set_current_grid_status
                 (w\<lparr>current_widget := Some hv,
                    folders_button_checked := False,
                    zkaps_button_checked := False,
                    history_button_checked := True\<rparr>)))"

definition show_zkap_view :: "main_window \<Rightarrow> py_error + main_window" where
  "show_zkap_view w =
     (case currentData w of
        None \<Rightarrow> Inr w
      | Some gateway \<Rightarrow>
          (case zkap_views w gateway of
             None \<Rightarrow> Inr w
           | Some zv \<Rightarrow>
               set_current_grid_status
                 (w\<lparr>current_widget := Some zv,
                    folders_button_checked := False,
                    zkaps_button_checked := True,
                    history_button_checked := False\<rparr>)))"

definition show_welcome_dialog :: "main_window \<Rightarrow> main_window" where
  "show_welcome_dialog w = w\<lparr>welcome_dialogs_shown := Suc (welcome_dialogs_shown w)\<rparr>"

text \<open>
  \<open>on_grid_selected\<close> is the slot of the combo box's \<open>currentIndexChanged\<close> signal: it
  runs with the new index already current.
\<close>

definition on_grid_selected :: "string \<Rightarrow> int \<Rightarrow> main_window \<Rightarrow> py_error + main_window" where
  "on_grid_selected APP_NAME index w =
     (let w1 = (if index = int (length (combo_items w)) - 1 then show_welcome_dialog w else w)
      in case currentData w1 of
           None \<Rightarrow> Inr w1
         | Some gateway \<Rightarrow>
             (case (if history_button_checked w1 then show_history_view w1
                    else show_folders_view w1) of
                Inl e \<Rightarrow> Inl e
              | Inr w2 \<Rightarrow>
                  if multiple_grids_enabled w2 then
                    (case currentData w2 of
                       None \<Rightarrow> Inl AttributeError
                     | Some g2 \<Rightarrow> Inr (w2\<lparr>window_title := APP_NAME @ '' - '' @ name g2\<rparr>))
                  else Inr w2))"

text \<open>
  Qt's side of a selection: the combo box makes item \<open>i\<close> current and, the index
  having changed, emits \<open>currentIndexChanged(i)\<close>, which runs the slot.
\<close>

definition select_index :: "string \<Rightarrow> nat \<Rightarrow> main_window \<Rightarrow> py_error + main_window" where
  "select_index APP_NAME i w = on_grid_selected APP_NAME (int i) (w\<lparr>combo_current_index := int i\<rparr>)"

text \<open>The panel kinds, to state properties of the three view functions together.\<close>

datatype view_kind = Folders | History | Quota

fun show_view :: "view_kind \<Rightarrow> main_window \<Rightarrow> py_error + main_window" where
  "show_view Folders w = show_folders_view w"
| "show_view History w = show_history_view w"
| "show_view Quota w = show_zkap_view w"

fun panel :: "view_kind \<Rightarrow> main_window \<Rightarrow> gateway \<rightharpoonup> widget" where
  "panel Folders w = folders_views w"
| "panel History w = history_views w"
| "panel Quota w = zkap_views w"

fun checked :: "view_kind \<Rightarrow> main_window \<Rightarrow> bool" where
  "checked Folders w = folders_button_checked w"
| "checked History w = history_button_checked w"
| "checked Quota w = zkaps_button_checked w"

subsection \<open>News messages\<close>

text \<open>
  \<open>list.remove\<close> deletes the first equal element and raises \<open>ValueError\<close> when there is
  none; \<open>show_news_message\<close> then returns before \<open>systray.update()\<close>.
\<close>

definition show_news_message :: "gateway \<Rightarrow> string \<Rightarrow> string \<Rightarrow> main_window \<Rightarrow> main_window" where
  "show_news_message gateway title message w =
     (let w1 = w\<lparr>msgboxes_shown := msgboxes_shown w @ [(gateway, title, message)]\<rparr>
      in if (gateway, title, message) \<in> set (unread_messages w1) then
           w1\<lparr>unread_messages := remove1 (gateway, title, message) (unread_messages w1),
              systray_updates := Suc (systray_updates w1)\<rparr>
         else w1)"

definition maybe_show_news_message :: "gateway \<Rightarrow> string \<Rightarrow> string \<Rightarrow> main_window \<Rightarrow> main_window" where
  "maybe_show_news_message gateway title message w =
     (let w1 = w\<lparr>unread_messages := unread_messages w @ [(gateway, title, message)],
                  systray_updates := Suc (systray_updates w)\<rparr>
      in if visible w1 then show_news_message gateway title message w1
         else w1\<lparr>pending_news_message := Some (gateway, title, message)\<rparr>)"

definition showEvent :: "main_window \<Rightarrow> main_window" where
  "showEvent w =
     (case pending_news_message w of
        None \<Rightarrow> w
      | Some (gateway, title, message) \<Rightarrow>
          w\<lparr>pending_news_message := None,
            single_shots := single_shots w @ [(gateway, title, message)]\<rparr>)"

text \<open>
  The next turn of the event loop runs the zero-delay timers in the order they were
  started; each calls \<open>show_news_message\<close> with the arguments bound by its lambda.
\<close>

fun run_callbacks :: "news_message list \<Rightarrow> main_window \<Rightarrow> main_window" where
  "run_callbacks [] w = w"
| "run_callbacks ((gateway, title, message) # cs) w =
     run_callbacks cs (show_news_message gateway title message w)"

definition process_single_shots :: "main_window \<Rightarrow> main_window" where
  "process_single_shots w = run_callbacks (single_shots w) (w\<lparr>single_shots := []\<rparr>)"

text \<open>Messages arriving one after the other.\<close>

fun enqueue_all :: "news_message list \<Rightarrow> main_window \<Rightarrow> main_window" where
  "enqueue_all [] w = w"
| "enqueue_all ((gateway, title, message) # ms) w =
     enqueue_all ms (maybe_show_news_message gateway title message w)"

subsection \<open>\<open>confirm_quit\<close>\<close>

text \<open>
  The two flags of the scan. The inner loop stops at the first row that is loading
  (no status and no modification time) or syncing (status 1); its \<open>break\<close> leaves only
  the loop over the rows of one model, and the scan goes on with the next model.
\<close>

fun scan_rows :: "folder_row list \<Rightarrow> bool \<times> bool \<Rightarrow> bool \<times> bool" where
  "scan_rows [] (folder_loading, folder_syncing) = (folder_loading, folder_syncing)"
| "scan_rows (row # rows) (folder_loading, folder_syncing) =
     (if \<not> truthy (status row) \<and> \<not> truthy (mtime row) then (True, folder_syncing)
      else if status row = Some 1 then (folder_loading, True)
      else scan_rows rows (folder_loading, folder_syncing))"

fun scan_models :: "folder_row list list \<Rightarrow> bool \<times> bool \<Rightarrow> bool \<times> bool" where
  "scan_models [] flags = flags"
| "scan_models (model # models) flags = scan_models models (scan_rows model flags)"

text \<open>The three message variants of the dialog (icon and informative text).\<close>

datatype quit_message = LoadingWarning | SyncingWarning | PlainQuestion

definition confirm_quit :: "main_window \<Rightarrow> quit_message" where
  "confirm_quit w =
     (case scan_models (views w) (False, False) of
        (folder_loading, folder_syncing) \<Rightarrow>
          if folder_loading then LoadingWarning
          else if folder_syncing then SyncingWarning
          else PlainQuestion)"

section \<open>Preferences\<close>

text \<open>
  The backing store: the files of the configuration directory by path, each an INI file
  (sections of options). \<open>config_dir\<close> is a constant of the package and is a parameter
  here.
\<close>

type_synonym ini_file = "string \<rightharpoonup> (string \<rightharpoonup> string)"
type_synonym filesystem = "string \<rightharpoonup> ini_file"

datatype config_error = NotFound

text \<open>
  Modelled from the spec: the class \<open>Config\<close> of \<open>gridsync/config.py\<close>, which
  \<open>set_preference\<close> and \<open>get_preference\<close> construct on the file and call, is not among
  the sources. By the spec, \<open>set\<close> is an overwrite that creates the section if absent
  and performs a full load-modify-store cycle against the backing file.
\<close>

definition Config_set :: "string \<Rightarrow> string \<Rightarrow> string \<Rightarrow> string \<Rightarrow> filesystem \<Rightarrow> filesystem" where
  "Config_set filename section option value fs =
     (let config = (case fs filename of None \<Rightarrow> Map.empty | Some c \<Rightarrow> c);
          options = (case config section of None \<Rightarrow> Map.empty | Some os \<Rightarrow> os)
      in fs(filename \<mapsto> config(section \<mapsto> options(option \<mapsto> value))))"

text \<open>
  Modelled from the spec: \<open>Config.get\<close> (same missing class). By the spec, \<open>get\<close> fails
  with \<open>NotFound\<close> if the (section, option) pair has never been set, with no implicit
  default.
\<close>

definition Config_get :: "string \<Rightarrow> string \<Rightarrow> string \<Rightarrow> filesystem \<Rightarrow> config_error + string" where
  "Config_get filename section option fs =
     (case fs filename of
        None \<Rightarrow> Inl NotFound
      | Some config \<Rightarrow>
          (case config section of
             None \<Rightarrow> Inl NotFound
           | Some options \<Rightarrow>
               (case options option of
                  None \<Rightarrow> Inl NotFound
                | Some value \<Rightarrow> Inr value)))"

text \<open>\<open>os.path.join\<close> of two components (POSIX).\<close>

definition os_path_join :: "string \<Rightarrow> string \<Rightarrow> string" where
  "os_path_join a b =
     (if b \<noteq> [] \<and> hd b = CHR ''/'' then b
      else if a = [] \<or> last a = CHR ''/'' then a @ b
      else a @ ''/'' @ b)"

text \<open>The \<open>if not config_file\<close> of both functions: \<open>None\<close> and the empty string
  select the default file.\<close>

definition config_path :: "string \<Rightarrow> string option \<Rightarrow> string" where
  "config_path config_dir config_file =
     (case config_file of
        None \<Rightarrow> os_path_join config_dir ''preferences.ini''
      | Some f \<Rightarrow> if f = [] then os_path_join config_dir ''preferences.ini'' else f)"

definition set_preference ::
  "string \<Rightarrow> string \<Rightarrow> string \<Rightarrow> string \<Rightarrow> string option \<Rightarrow> filesystem \<Rightarrow> filesystem" where
  "set_preference config_dir section option value config_file fs =
     Config_set (config_path config_dir config_file) section option value fs"

definition get_preference ::
  "string \<Rightarrow> string \<Rightarrow> string \<Rightarrow> string option \<Rightarrow> filesystem \<Rightarrow> config_error + string" where
  "get_preference config_dir section option config_file fs =
     Config_get (config_path config_dir config_file) section option fs"

text \<open>The class \<open>Preferences\<close>: its one attribute is the path of the file.\<close>

record preferences =
  config_file_path :: string

definition Preferences_set ::
  "string \<Rightarrow> preferences \<Rightarrow> string \<Rightarrow> string \<Rightarrow> string \<Rightarrow> filesystem \<Rightarrow> filesystem" where
  "Preferences_set config_dir self section option value fs =
     set_preference config_dir section option value (Some (config_file_path self)) fs"

definition Preferences_get ::
  "string \<Rightarrow> preferences \<Rightarrow> string \<Rightarrow> string \<Rightarrow> filesystem \<Rightarrow> config_error + string" where
  "Preferences_get config_dir self section option fs =
     get_preference config_dir section option (Some (config_file_path self)) fs"

text \<open>A history of \<open>set\<close> calls, possibly through several \<open>Preferences\<close> objects.\<close>

fun set_all ::
  "string \<Rightarrow> (preferences \<times> string \<times> string \<times> string) list \<Rightarrow> filesystem \<Rightarrow> filesystem" where
  "set_all config_dir [] fs = fs"
| "set_all config_dir ((self, section, option, value) # calls) fs =
     set_all config_dir calls (Preferences_set config_dir self section option value fs)"

section \<open>Derived views of the window state\<close>

text \<open>
  The invite control of the toolbar, if there is one: \<open>invites_button\<close> when grid
  invites are enabled, else \<open>invite_action\<close> when invites are enabled, else none.
\<close>

definition invite_control :: "main_window \<Rightarrow> bool option" where
  "invite_control w =
     (if grid_invites_enabled w then Some (invites_button_enabled w)
      else if invites_enabled w then Some (invite_action_enabled w)
      else None)"

text \<open>
  The enabled state of the controls that \<open>maybe_enable_actions\<close> sets: add-folder
  button, grid selector, history button, recovery button, folders button, storage-time
  (quota) button and the invite control.
\<close>

definition controls :: "main_window \<Rightarrow> bool list" where
  "controls w =
     [folder_button_enabled w, combo_box_enabled w, history_button_enabled w,
      recovery_button_enabled w, folders_button_enabled w, zkaps_button_enabled w]
     @ (case invite_control w of None \<Rightarrow> [] | Some b \<Rightarrow> [b])"

text \<open>The checked state of the folders, storage-time and history buttons, in this order.\<close>

definition checks :: "main_window \<Rightarrow> bool \<times> bool \<times> bool" where
  "checks w = (folders_button_checked w, zkaps_button_checked w, history_button_checked w)"

definition only_checked :: "view_kind \<Rightarrow> bool \<times> bool \<times> bool" where
  "only_checked k = (k = Folders, k = Quota, k = History)"

text \<open>
  The gateway for which \<open>set_current_grid_status\<close> ends in the storage-time view: it
  has a folders panel and a storage-time panel, needs vouchers, has none left and has
  no folders.
\<close>

definition quota_forced :: "main_window \<Rightarrow> gateway \<Rightarrow> bool" where
  "quota_forced w g =
     (folders_views w g \<noteq> None \<and> zkap_views w g \<noteq> None \<and> zkap_auth_required g
      \<and> \<not> truthy (zkaps_remaining g) \<and> magic_folders g = [])"

text \<open>What the view functions read and never write.\<close>

definition registry :: "main_window \<Rightarrow>
    gateway option list \<times> int \<times> (gateway \<rightharpoonup> widget) \<times> (gateway \<rightharpoonup> widget) \<times> (gateway \<rightharpoonup> widget)
    \<times> bool \<times> bool \<times> bool" where
  "registry w = (combo_items w, combo_current_index w, folders_views w, history_views w, zkap_views w,
     multiple_grids_enabled w, grid_invites_enabled w, invites_enabled w)"

text \<open>
  The user, with item \<open>i\<close> current, chooses view \<open>k\<close>, then selects item \<open>j\<close> of the combo
  box, then item \<open>i\<close> again.
\<close>

definition reselect :: "string \<Rightarrow> view_kind \<Rightarrow> nat \<Rightarrow> nat \<Rightarrow> main_window \<Rightarrow> py_error + main_window" where
  "reselect APP_NAME k i j w =
     (case show_view k w of
        Inl e \<Rightarrow> Inl e
      | Inr w1 \<Rightarrow>
          (case select_index APP_NAME j w1 of
             Inl e \<Rightarrow> Inl e
           | Inr w2 \<Rightarrow> select_index APP_NAME i w2))"

section \<open>Example states\<close>

text \<open>
  Gateway \<open>A\<close> needs no storage-time vouchers; gateway \<open>B\<close> needs them, has none left
  and has no folders yet; gateway \<open>C\<close> is like \<open>A\<close> and has a folder.
\<close>

definition gateway_A :: gateway where
  "gateway_A = \<lparr> nodedir = ''/home/user/.config/gridsync/A'', name = ''A'',
       zkap_auth_required = False, zkaps_remaining = None, magic_folders = [] \<rparr>"

definition gateway_B :: gateway where
  "gateway_B = \<lparr> nodedir = ''/home/user/.config/gridsync/B'', name = ''B'',
       zkap_auth_required = True, zkaps_remaining = Some 0, magic_folders = [] \<rparr>"

definition gateway_C :: gateway where
  "gateway_C = \<lparr> nodedir = ''/home/user/.config/gridsync/C'', name = ''C'',
       zkap_auth_required = False, zkaps_remaining = Some 0, magic_folders = [''Documents''] \<rparr>"

definition syncing_row :: folder_row where
  "syncing_row = \<lparr> status = Some 1, mtime = Some 1600000000 \<rparr>"

definition loading_row :: folder_row where
  "loading_row = \<lparr> status = None, mtime = None \<rparr>"

definition example_preferences :: preferences where
  "example_preferences = \<lparr> config_file_path = ''/home/user/.config/gridsync/preferences.ini'' \<rparr>"

text \<open>
  A window after \<open>populate\<close> with the gateways \<open>A\<close>, \<open>B\<close>, \<open>C\<close> (each new gateway is
  inserted at index 0 of the combo box, before the separator and "Add new..."): \<open>C\<close> is
  current and its folders view is shown. And a window with gateway \<open>A\<close> alone, as
  it is when \<open>populate\<close> has registered the gateway and the combo box signals that
  item 0 is now current.
\<close>

definition example_window :: main_window where
  "example_window = (MainWindow_init ''Gridsync'' [])
     \<lparr> window_title := ''Gridsync - C'',
       combo_items := [Some gateway_C, Some gateway_B, Some gateway_A, None, None],
       combo_current_index := 0,
       views := [[], [], [\<lparr> status = Some 2, mtime = Some 1600000000 \<rparr>]],
       folders_views := [gateway_A \<mapsto> FoldersWidget gateway_A, gateway_B \<mapsto> FoldersWidget gateway_B,
                         gateway_C \<mapsto> FoldersWidget gateway_C],
       history_views := [gateway_A \<mapsto> HistoryView gateway_A, gateway_B \<mapsto> HistoryView gateway_B,
                         gateway_C \<mapsto> HistoryView gateway_C],
       zkap_views := [gateway_A \<mapsto> ZKAPWidget gateway_A, gateway_B \<mapsto> ZKAPWidget gateway_B,
                         gateway_C \<mapsto> ZKAPWidget gateway_C],
       current_widget := Some (FoldersWidget gateway_C),
       folder_button_enabled := True,
       history_button_enabled := True,
       folders_button_enabled := True,
       zkaps_button_enabled := True,
       folders_button_checked := True \<rparr>"

definition single_gateway_window :: main_window where
  "single_gateway_window = (MainWindow_init ''Gridsync'' [])
     \<lparr> combo_items := [Some gateway_A, None, None],
       combo_current_index := 0,
       views := [[]],
       folders_views := [gateway_A \<mapsto> FoldersWidget gateway_A],
       history_views := [gateway_A \<mapsto> HistoryView gateway_A],
       zkap_views := [gateway_A \<mapsto> ZKAPWidget gateway_A],
       current_widget := Some (FoldersWidget gateway_A) \<rparr>"

section \<open>Properties\<close>

subsection \<open>Quit confirmation\<close>

text \<open>
  C1. The claim: whenever some folder of some gateway has neither a status nor a
  last-sync time, the quit dialog is the loading warning, wherever that folder stands and
  whatever other folders are syncing. The scan leaves the rows of a model at the first
  syncing row as well, so a loading folder listed after a syncing folder of the same
  gateway is never seen: the window with one gateway whose folders are syncing, loading
  (in this order) gets the syncing warning. The same two folders in two gateways, or in
  the other order, get the loading warning.
\<close>

theorem confirm_quit_syncing_hides_loading:
  "confirm_quit (MainWindow_init ''Gridsync'' [] \<lparr>views := [[syncing_row, loading_row]]\<rparr>) = SyncingWarning
   \<and> confirm_quit (MainWindow_init ''Gridsync'' [] \<lparr>views := [[syncing_row], [loading_row]]\<rparr>) = LoadingWarning
   \<and> confirm_quit (MainWindow_init ''Gridsync'' [] \<lparr>views := [[loading_row, syncing_row]]\<rparr>) = LoadingWarning"
  by (simp add: confirm_quit_def MainWindow_init_def syncing_row_def loading_row_def)

subsection \<open>News messages\<close>

text \<open>
  C5, as the claim states it: marking a tuple displayed updates the tray indicator also
  when the tuple is not in the unread list. In the freshly constructed window (nothing
  unread) the indicator is not updated.
\<close>

theorem show_news_message_absent_no_update:
  "(gateway_A, ''t'', ''m'') \<notin> set (unread_messages (MainWindow_init ''Gridsync'' []))
   \<and> systray_updates (show_news_message gateway_A ''t'' ''m'' (MainWindow_init ''Gridsync'' []))
       = systray_updates (MainWindow_init ''Gridsync'' [])"
  by (simp add: show_news_message_def MainWindow_init_def)

text \<open>
  C5, amended: \<open>show_news_message\<close> removes the first occurrence of the exact tuple from
  the unread list. When the tuple is present, exactly one occurrence goes and the tray
  indicator is updated once; when it is absent, the list is unchanged, nothing is raised
  and the indicator is not updated.
\<close>

theorem show_news_message_removes_one:
  "unread_messages (show_news_message g t m w) = remove1 (g, t, m) (unread_messages w)
   \<and> (if (g, t, m) \<in> set (unread_messages w)
      then mset (unread_messages w) = add_mset (g, t, m) (mset (unread_messages (show_news_message g t m w)))
         \<and> systray_updates (show_news_message g t m w) = Suc (systray_updates w)
      else unread_messages (show_news_message g t m w) = unread_messages w
         \<and> systray_updates (show_news_message g t m w) = systray_updates w)"
  by (simp add: show_news_message_def Let_def remove1_idem)

subsection \<open>Preferences\<close>

lemma Config_get_set_same:
  "Config_get f s opt (Config_set f s opt v fs) = Inr v"
  by (simp add: Config_get_def Config_set_def Let_def)

lemma Config_get_set_other:
  "(f', s', opt') \<noteq> (f, s, opt) \<Longrightarrow>
   Config_get f s opt (Config_set f' s' opt' v fs) = Config_get f s opt fs"
  by (auto simp: Config_get_def Config_set_def Let_def split: option.splits)

lemma Preferences_get_set_all:
  "\<forall>(p', s', opt', v') \<in> set calls.
      (config_path cd (Some (config_file_path p')), s', opt')
        \<noteq> (config_path cd (Some (config_file_path p)), s, opt) \<Longrightarrow>
   Preferences_get cd p s opt (set_all cd calls fs) = Preferences_get cd p s opt fs"
proof (induction calls arbitrary: fs)
  case Nil
  then show ?case by simp
next
  case (Cons c calls)
  obtain p' s' opt' v' where c: "c = (p', s', opt', v')" by (cases c) auto
  have neq: "(config_path cd (Some (config_file_path p')), s', opt')
               \<noteq> (config_path cd (Some (config_file_path p)), s, opt)"
    using Cons.prems c by simp
  have "Preferences_get cd p s opt (set_all cd (c # calls) fs)
      = Preferences_get cd p s opt (Preferences_set cd p' s' opt' v' fs)"
    using Cons.IH[of "Preferences_set cd p' s' opt' v' fs"] Cons.prems c by simp
  also have "\<dots> = Preferences_get cd p s opt fs"
    using Config_get_set_other[OF neq]
    by (simp add: Preferences_get_def Preferences_set_def get_preference_def set_preference_def)
  finally show ?case .
qed

text \<open>
  C6. \<open>get\<close> after \<open>set\<close> of the same section and option, through the same
  \<open>Preferences\<close> object, returns exactly the value set. Starting with no file, after any
  history of \<open>set\<close> calls none of which wrote this section and option of this file,
  \<open>get\<close> fails with \<open>NotFound\<close>.
\<close>

theorem Preferences_round_trip:
  "Preferences_get cd p s opt (Preferences_set cd p s opt v fs) = Inr v
   \<and> ((\<forall>(p', s', opt', v') \<in> set calls.
          (config_path cd (Some (config_file_path p')), s', opt')
            \<noteq> (config_path cd (Some (config_file_path p)), s, opt))
       \<longrightarrow> Preferences_get cd p s opt (set_all cd calls Map.empty) = Inl NotFound)"
proof -
  have a: "Preferences_get cd p s opt (Preferences_set cd p s opt v fs) = Inr v"
    by (simp add: Preferences_get_def Preferences_set_def get_preference_def
        set_preference_def Config_get_set_same)
  have b: "Preferences_get cd p s opt Map.empty = Inl NotFound"
    by (simp add: Preferences_get_def get_preference_def Config_get_def)
  show ?thesis using a b Preferences_get_set_all[of calls cd p s opt Map.empty] by auto
qed

theorem Preferences_round_trip_witness:
  "Preferences_get ''/home/user/.config/gridsync'' example_preferences ''features'' ''invites''
     (Preferences_set ''/home/user/.config/gridsync'' example_preferences ''features'' ''invites'' ''false'' Map.empty)
     = Inr ''false''
   \<and> Preferences_get ''/home/user/.config/gridsync'' example_preferences ''features'' ''invites''
       (set_all ''/home/user/.config/gridsync''
          [(example_preferences, ''features'', ''grid_invites'', ''false''),
           (\<lparr> config_file_path = [] \<rparr>, ''features'', ''multiple_grids'', ''true'')] Map.empty)
     = Inl NotFound"
  using Preferences_round_trip[of "''/home/user/.config/gridsync''" example_preferences
     "''features''" "''invites''" "''false''" Map.empty
     "[(example_preferences, ''features'', ''grid_invites'', ''false''),
       (\<lparr> config_file_path = [] \<rparr>, ''features'', ''multiple_grids'', ''true'')]"]
  by (simp add: example_preferences_def)

subsection \<open>Feature flags\<close>

lemma flag_is_false_iff:
  "flag_is_false x = (\<exists>v. x = Some v \<and> v \<noteq> [] \<and> str_lower v = ''false'')"
  by (auto simp: flag_is_false_def split: option.splits)

lemma feature_enabled_iff:
  "feature_enabled st opt =
     (\<not> (\<exists>fs v. map_of st ''features'' = Some fs \<and> map_of fs opt = Some v
              \<and> v \<noteq> [] \<and> str_lower v = ''false''))"
  by (auto simp: feature_enabled_def flag_is_false_iff split: option.splits)

text \<open>
  C9. After \<open>__init__\<close> each of the three features is disabled exactly when the settings
  have a section \<open>features\<close> holding that option with a non-empty value whose lower case
  is \<open>false\<close>; any other value, a missing option and a missing section leave it enabled.
\<close>

theorem feature_disabled_iff_false:
  "grid_invites_enabled (MainWindow_init a st) =
     (\<not> (\<exists>fs v. map_of st ''features'' = Some fs \<and> map_of fs ''grid_invites'' = Some v
              \<and> v \<noteq> [] \<and> str_lower v = ''false''))
   \<and> invites_enabled (MainWindow_init a st) =
     (\<not> (\<exists>fs v. map_of st ''features'' = Some fs \<and> map_of fs ''invites'' = Some v
              \<and> v \<noteq> [] \<and> str_lower v = ''false''))
   \<and> multiple_grids_enabled (MainWindow_init a st) =
     (\<not> (\<exists>fs v. map_of st ''features'' = Some fs \<and> map_of fs ''multiple_grids'' = Some v
              \<and> v \<noteq> [] \<and> str_lower v = ''false''))"
  by (simp add: MainWindow_init_def feature_enabled_iff)

theorem feature_disabled_iff_false_witness:
  "\<not> grid_invites_enabled (MainWindow_init ''Gridsync'' [(''features'', [(''grid_invites'', ''False''), (''invites'', ''FALSE ''), (''multiple_grids'', ''0'')])])
  \<and> invites_enabled (MainWindow_init ''Gridsync'' [(''features'', [(''grid_invites'', ''False''), (''invites'', ''FALSE ''), (''multiple_grids'', ''0'')])])
  \<and> multiple_grids_enabled (MainWindow_init ''Gridsync'' [(''features'', [(''grid_invites'', ''False''), (''invites'', ''FALSE ''), (''multiple_grids'', ''0'')])])
  \<and> multiple_grids_enabled (MainWindow_init ''Gridsync'' [(''features'', [(''multiple_grids'', ''no''), (''invites'', [])])])
  \<and> invites_enabled (MainWindow_init ''Gridsync'' [(''features'', [(''multiple_grids'', ''no''), (''invites'', [])])])
  \<and> grid_invites_enabled (MainWindow_init ''Gridsync'' [(''features'', [(''multiple_grids'', ''no''), (''invites'', [])])])
  \<and> grid_invites_enabled (MainWindow_init ''Gridsync'' [(''other'', [(''grid_invites'', ''false'')])])"
  using feature_disabled_iff_false[of "''Gridsync''" "[(''features'', [(''grid_invites'', ''False''), (''invites'', ''FALSE ''), (''multiple_grids'', ''0'')])]"]
    feature_disabled_iff_false[of "''Gridsync''" "[(''features'', [(''multiple_grids'', ''no''), (''invites'', [])])]"]
    feature_disabled_iff_false[of "''Gridsync''" "[(''other'', [(''grid_invites'', ''false'')])]"]
  by (simp add: str_lower_def lower_char_def)

subsection \<open>The pending news message\<close>

lemma maybe_show_hidden:
  "\<not> visible w \<Longrightarrow> maybe_show_news_message g t m w =
     w\<lparr>unread_messages := unread_messages w @ [(g, t, m)],
       systray_updates := Suc (systray_updates w),
       pending_news_message := Some (g, t, m)\<rparr>"
  by (simp add: maybe_show_news_message_def Let_def)

lemma enqueue_all_hidden:
  "\<not> visible w \<Longrightarrow>
   \<not> visible (enqueue_all ms w)
   \<and> unread_messages (enqueue_all ms w) = unread_messages w @ ms
   \<and> pending_news_message (enqueue_all ms w) = (if ms = [] then pending_news_message w else Some (last ms))
   \<and> msgboxes_shown (enqueue_all ms w) = msgboxes_shown w
   \<and> single_shots (enqueue_all ms w) = single_shots w"
proof (induction ms arbitrary: w)
  case Nil
  then show ?case by simp
next
  case (Cons x ms)
  obtain g t m where x: "x = (g, t, m)" by (cases x) auto
  let ?w1 = "maybe_show_news_message g t m w"
  have w1: "?w1 = w\<lparr>unread_messages := unread_messages w @ [(g, t, m)],
       systray_updates := Suc (systray_updates w),
       pending_news_message := Some (g, t, m)\<rparr>"
    using Cons.prems by (rule maybe_show_hidden)
  have hid: "\<not> visible ?w1" using Cons.prems by (simp add: w1)
  show ?case using Cons.IH[OF hid] by (simp add: x w1)
qed

text \<open>
  C4. While the window is hidden, after any non-empty sequence of arriving messages the
  pending slot holds exactly the last one (each arrival overwrites it), nothing has been
  displayed, and the unread list has grown by every message. \<open>showEvent\<close> then empties
  the slot and starts one zero-delay timer, for that last message; the unread list is
  still complete. When the timer has run (no other timer waiting), exactly the last
  message has been displayed and only it has left the unread list.
\<close>

theorem hidden_enqueues_keep_last_pending:
  assumes "\<not> visible w" and "ms \<noteq> []" and "single_shots w = []"
  shows "pending_news_message (enqueue_all ms w) = Some (last ms)
       \<and> unread_messages (enqueue_all ms w) = unread_messages w @ ms
       \<and> msgboxes_shown (enqueue_all ms w) = msgboxes_shown w
       \<and> pending_news_message (showEvent (enqueue_all ms w)) = None
       \<and> single_shots (showEvent (enqueue_all ms w)) = [last ms]
       \<and> unread_messages (showEvent (enqueue_all ms w)) = unread_messages w @ ms
       \<and> msgboxes_shown (process_single_shots (showEvent (enqueue_all ms w))) = msgboxes_shown w @ [last ms]
       \<and> unread_messages (process_single_shots (showEvent (enqueue_all ms w)))
           = remove1 (last ms) (unread_messages w @ ms)"
proof -
  let ?w1 = "enqueue_all ms w"
  obtain g t m where l: "last ms = (g, t, m)" by (cases "last ms") auto
  have e: "unread_messages ?w1 = unread_messages w @ ms"
      "pending_news_message ?w1 = Some (g, t, m)"
      "msgboxes_shown ?w1 = msgboxes_shown w"
      "single_shots ?w1 = []"
    using enqueue_all_hidden[OF assms(1), of ms] assms(2,3) l by simp_all
  have s: "showEvent ?w1 = ?w1\<lparr>pending_news_message := None, single_shots := [(g, t, m)]\<rparr>"
    by (simp add: showEvent_def e)
  have inl: "(g, t, m) \<in> set (unread_messages w @ ms)"
    using assms(2) l last_in_set[of ms] by auto
  have p: "process_single_shots (showEvent ?w1)
      = show_news_message g t m (?w1\<lparr>pending_news_message := None, single_shots := []\<rparr>)"
    by (simp add: process_single_shots_def s)
  have q: "msgboxes_shown (process_single_shots (showEvent ?w1)) = msgboxes_shown w @ [(g, t, m)]"
      "unread_messages (process_single_shots (showEvent ?w1)) = remove1 (g, t, m) (unread_messages w @ ms)"
    using inl by (simp_all add: p e show_news_message_def Let_def)
  have r: "pending_news_message (showEvent ?w1) = None"
      "single_shots (showEvent ?w1) = [(g, t, m)]"
      "unread_messages (showEvent ?w1) = unread_messages w @ ms"
    by (simp_all add: s e)
  show ?thesis
    by (simp only: q r e l simp_thms)
qed

theorem hidden_enqueues_keep_last_pending_witness:
  "\<not> visible (MainWindow_init ''Gridsync'' [])
   \<and> [(gateway_A, ''New message from A'', ''first''), (gateway_B, ''Upgrade required'', ''second'')] \<noteq> []
   \<and> single_shots (MainWindow_init ''Gridsync'' []) = []
   \<and> pending_news_message (enqueue_all [(gateway_A, ''New message from A'', ''first''), (gateway_B, ''Upgrade required'', ''second'')] (MainWindow_init ''Gridsync'' []))
       = Some (gateway_B, ''Upgrade required'', ''second'')
   \<and> unread_messages (showEvent (enqueue_all [(gateway_A, ''New message from A'', ''first''), (gateway_B, ''Upgrade required'', ''second'')] (MainWindow_init ''Gridsync'' [])))
       = [(gateway_A, ''New message from A'', ''first''), (gateway_B, ''Upgrade required'', ''second'')]
   \<and> msgboxes_shown (process_single_shots (showEvent (enqueue_all [(gateway_A, ''New message from A'', ''first''), (gateway_B, ''Upgrade required'', ''second'')] (MainWindow_init ''Gridsync'' []))))
       = [(gateway_B, ''Upgrade required'', ''second'')]
   \<and> unread_messages (process_single_shots (showEvent (enqueue_all [(gateway_A, ''New message from A'', ''first''), (gateway_B, ''Upgrade required'', ''second'')] (MainWindow_init ''Gridsync'' []))))
       = [(gateway_A, ''New message from A'', ''first'')]"
  using hidden_enqueues_keep_last_pending[of "MainWindow_init ''Gridsync'' []"
      "[(gateway_A, ''New message from A'', ''first''), (gateway_B, ''Upgrade required'', ''second'')]"]
  by (simp add: MainWindow_init_def gateway_A_def gateway_B_def)

subsection \<open>Enabling and disabling the controls\<close>

lemma set_invite_enabled_frame [simp]:
  "folder_button_enabled (set_invite_enabled b w) = folder_button_enabled w"
  "combo_box_enabled (set_invite_enabled b w) = combo_box_enabled w"
  "history_button_enabled (set_invite_enabled b w) = history_button_enabled w"
  "recovery_button_enabled (set_invite_enabled b w) = recovery_button_enabled w"
  "folders_button_enabled (set_invite_enabled b w) = folders_button_enabled w"
  "zkaps_button_enabled (set_invite_enabled b w) = zkaps_button_enabled w"
  "folders_button_checked (set_invite_enabled b w) = folders_button_checked w"
  "zkaps_button_checked (set_invite_enabled b w) = zkaps_button_checked w"
  "history_button_checked (set_invite_enabled b w) = history_button_checked w"
  "current_widget (set_invite_enabled b w) = current_widget w"
  "zkap_views (set_invite_enabled b w) = zkap_views w"
  "folders_views (set_invite_enabled b w) = folders_views w"
  "history_views (set_invite_enabled b w) = history_views w"
  "combo_items (set_invite_enabled b w) = combo_items w"
  "combo_current_index (set_invite_enabled b w) = combo_current_index w"
  "multiple_grids_enabled (set_invite_enabled b w) = multiple_grids_enabled w"
  "window_title (set_invite_enabled b w) = window_title w"
  "grid_invites_enabled (set_invite_enabled b w) = grid_invites_enabled w"
  "invites_enabled (set_invite_enabled b w) = invites_enabled w"
  by (simp_all add: set_invite_enabled_def)

lemma invite_control_set_invite_enabled:
  "invite_control (set_invite_enabled b w) = (case invite_control w of None \<Rightarrow> None | Some x \<Rightarrow> Some b)"
  by (simp add: invite_control_def set_invite_enabled_def)

lemma invite_control_frame [simp]:
  "invite_control (w\<lparr>folder_button_enabled := a1\<rparr>) = invite_control w"
  "invite_control (w\<lparr>combo_box_enabled := a2\<rparr>) = invite_control w"
  "invite_control (w\<lparr>history_button_enabled := a3\<rparr>) = invite_control w"
  "invite_control (w\<lparr>recovery_button_enabled := a4\<rparr>) = invite_control w"
  "invite_control (w\<lparr>folders_button_enabled := a5\<rparr>) = invite_control w"
  "invite_control (w\<lparr>zkaps_button_enabled := a6\<rparr>) = invite_control w"
  "invite_control (w\<lparr>current_widget := a7\<rparr>) = invite_control w"
  "invite_control (w\<lparr>zkaps_button_checked := a8\<rparr>) = invite_control w"
  "invite_control (w\<lparr>history_button_checked := a9\<rparr>) = invite_control w"
  "invite_control (w\<lparr>folders_button_checked := a10\<rparr>) = invite_control w"
  by (simp_all add: invite_control_def)

text \<open>
  C7. For a current gateway that does not require vouchers, whatever its number of
  remaining vouchers (zero and unset included), \<open>maybe_enable_actions\<close> returns normally
  with every control enabled; the current widget and the checked buttons stay as they
  are.
\<close>

theorem maybe_enable_actions_all_enabled:
  assumes "currentData w = Some g" and "\<not> zkap_auth_required g"
  shows "\<exists>w'. maybe_enable_actions w = Inr w'
           \<and> set (controls w') = {True}
           \<and> current_widget w' = current_widget w
           \<and> folders_button_checked w' = folders_button_checked w
           \<and> zkaps_button_checked w' = zkaps_button_checked w
           \<and> history_button_checked w' = history_button_checked w"
  using assms
  by (auto simp: maybe_enable_actions_def controls_def invite_control_set_invite_enabled
      split: option.splits)

theorem maybe_enable_actions_all_enabled_witness:
  "currentData example_window = Some gateway_C \<and> \<not> zkap_auth_required gateway_C
   \<and> zkaps_remaining gateway_C = Some 0
   \<and> (\<exists>w'. maybe_enable_actions example_window = Inr w'
           \<and> set (controls w') = {True}
           \<and> current_widget w' = current_widget example_window
           \<and> folders_button_checked w' = folders_button_checked example_window
           \<and> zkaps_button_checked w' = zkaps_button_checked example_window
           \<and> history_button_checked w' = history_button_checked example_window)"
  using maybe_enable_actions_all_enabled[of example_window gateway_C]
  by (simp add: currentData_def example_window_def gateway_C_def)

text \<open>
  C3, as the claim states it: for a gateway that requires vouchers and has none left,
  every control is disabled except the quota panel's. With gateway \<open>B\<close> current (vouchers
  required, 0 remaining, no folders) the storage-time button, enabled before, is
  disabled as well.
\<close>

theorem maybe_enable_actions_disables_quota_button:
  "currentData (example_window\<lparr>combo_current_index := 1\<rparr>) = Some gateway_B
   \<and> zkap_auth_required gateway_B \<and> zkaps_remaining gateway_B = Some 0
   \<and> magic_folders gateway_B = []
   \<and> zkaps_button_enabled (example_window\<lparr>combo_current_index := 1\<rparr>)
   \<and> \<not> isl (maybe_enable_actions (example_window\<lparr>combo_current_index := 1\<rparr>))
   \<and> \<not> zkaps_button_enabled (projr (maybe_enable_actions (example_window\<lparr>combo_current_index := 1\<rparr>)))"
  by (simp add: maybe_enable_actions_def currentData_def example_window_def gateway_B_def
      gateway_A_def gateway_C_def set_invite_enabled_def MainWindow_init_def feature_enabled_def)

text \<open>
  C3, amended: for a current gateway with a registered storage-time panel that requires
  vouchers and has none left, \<open>maybe_enable_actions\<close> disables every control, the
  storage-time (quota) button included. If the gateway has no folders, the storage-time
  panel becomes the current widget and its button the only checked one; if it has
  folders, the current widget and the checked buttons are left unchanged.
\<close>

theorem maybe_enable_actions_quota_exhausted:
  assumes "currentData w = Some g" and "zkap_auth_required g" and "\<not> truthy (zkaps_remaining g)"
    and "zkap_views w g = Some zv"
  shows "\<exists>w'. maybe_enable_actions w = Inr w'
           \<and> set (controls w') = {False}
           \<and> (if magic_folders g = []
               then current_widget w' = Some zv \<and> zkaps_button_checked w'
                  \<and> \<not> history_button_checked w' \<and> \<not> folders_button_checked w'
               else current_widget w' = current_widget w
                  \<and> zkaps_button_checked w' = zkaps_button_checked w
                  \<and> history_button_checked w' = history_button_checked w
                  \<and> folders_button_checked w' = folders_button_checked w)"
  using assms
  by (auto simp: maybe_enable_actions_def controls_def invite_control_set_invite_enabled Let_def
      split: option.splits)

theorem maybe_enable_actions_quota_exhausted_witness:
  "currentData (example_window\<lparr>combo_current_index := 1\<rparr>) = Some gateway_B
   \<and> zkap_auth_required gateway_B \<and> \<not> truthy (zkaps_remaining gateway_B)
   \<and> zkap_views (example_window\<lparr>combo_current_index := 1\<rparr>) gateway_B = Some (ZKAPWidget gateway_B)
   \<and> magic_folders gateway_B = []
   \<and> (\<exists>w'. maybe_enable_actions (example_window\<lparr>combo_current_index := 1\<rparr>) = Inr w'
           \<and> set (controls w') = {False}
           \<and> current_widget w' = Some (ZKAPWidget gateway_B) \<and> zkaps_button_checked w'
           \<and> \<not> history_button_checked w' \<and> \<not> folders_button_checked w')"
  using maybe_enable_actions_quota_exhausted[of "example_window\<lparr>combo_current_index := 1\<rparr>" gateway_B "ZKAPWidget gateway_B"]
  by (simp add: currentData_def example_window_def gateway_B_def gateway_A_def gateway_C_def)

subsection \<open>Switching views\<close>

lemma currentData_registry: "registry w' = registry w \<Longrightarrow> currentData w' = currentData w"
  by (simp add: registry_def currentData_def Let_def)

lemma quota_forced_registry: "registry w' = registry w \<Longrightarrow> quota_forced w' g = quota_forced w g"
  by (simp add: registry_def quota_forced_def)

lemma panel_registry: "registry w' = registry w \<Longrightarrow> panel k w' = panel k w"
  by (cases k) (simp_all add: registry_def)

lemma maybe_enable_actions_view:
  assumes "currentData w = Some g"
  shows "\<exists>w'. maybe_enable_actions w = Inr w' \<and> registry w' = registry w
           \<and> window_title w' = window_title w
           \<and> (if zkap_auth_required g \<and> \<not> truthy (zkaps_remaining g) \<and> magic_folders g = []
                  \<and> zkap_views w g \<noteq> None
               then current_widget w' = zkap_views w g \<and> checks w' = only_checked Quota
               else current_widget w' = current_widget w \<and> checks w' = checks w)"
  using assms
  by (auto simp: maybe_enable_actions_def registry_def checks_def only_checked_def Let_def
      split: option.splits)

lemma set_current_grid_status_view:
  assumes "currentData w = Some g"
  shows "\<exists>w'. set_current_grid_status w = Inr w' \<and> registry w' = registry w
           \<and> window_title w' = window_title w
           \<and> (if quota_forced w g
               then current_widget w' = zkap_views w g \<and> checks w' = only_checked Quota
               else current_widget w' = current_widget w \<and> checks w' = checks w)"
proof (cases "folders_views w g")
  case None
  then show ?thesis using assms
    by (simp add: set_current_grid_status_def current_view_def quota_forced_def)
next
  case (Some fv)
  let ?w1 = "w\<lparr>systray_updates := Suc (systray_updates w)\<rparr>"
  have "registry ?w1 = registry w" by (simp add: registry_def)
  then have cd: "currentData ?w1 = Some g" using assms currentData_registry[of ?w1 w] by simp
  have s: "set_current_grid_status w = maybe_enable_actions ?w1"
    using assms Some by (simp add: set_current_grid_status_def current_view_def)
  show ?thesis
    using maybe_enable_actions_view[OF cd] Some
    by (auto simp: s quota_forced_def registry_def checks_def)
qed

lemma show_view_unfold:
  assumes "currentData w = Some g" and "panel k w g = Some wd"
  shows "show_view k w = set_current_grid_status
           (w\<lparr>current_widget := Some wd,
              folders_button_checked := (k = Folders),
              zkaps_button_checked := (k = Quota),
              history_button_checked := (k = History)\<rparr>)"
  using assms
  by (cases k) (simp_all add: show_folders_view_def show_history_view_def show_zkap_view_def)

lemma show_view_missing:
  "panel k w g = None \<Longrightarrow> currentData w = Some g \<Longrightarrow> show_view k w = Inr w"
  by (cases k) (simp_all add: show_folders_view_def show_history_view_def show_zkap_view_def)

lemma show_view_no_gateway:
  "currentData w = None \<Longrightarrow> show_view k w = Inr w"
  by (cases k) (simp_all add: show_folders_view_def show_history_view_def show_zkap_view_def)

lemma show_view_view:
  assumes "currentData w = Some g" and "panel k w g = Some wd"
  shows "\<exists>w'. show_view k w = Inr w' \<and> registry w' = registry w
           \<and> window_title w' = window_title w
           \<and> (if quota_forced w g
               then current_widget w' = zkap_views w g \<and> checks w' = only_checked Quota
               else current_widget w' = Some wd \<and> checks w' = only_checked k)"
proof -
  let ?w1 = "w\<lparr>current_widget := Some wd,
              folders_button_checked := (k = Folders),
              zkaps_button_checked := (k = Quota),
              history_button_checked := (k = History)\<rparr>"
  have r: "registry ?w1 = registry w" by (simp add: registry_def)
  have cd: "currentData ?w1 = Some g" using assms(1) currentData_registry[OF r] by simp
  have q: "quota_forced ?w1 g = quota_forced w g" by (simp add: quota_forced_def)
  have c: "checks ?w1 = only_checked k" by (simp add: checks_def only_checked_def)
  show ?thesis
    using set_current_grid_status_view[OF cd] c
    by (auto simp: show_view_unfold[OF assms] q r)
qed

text \<open>
  C10, as the claim states it: a view switch that finds its panel leaves exactly the
  button of the selected view checked. With gateway \<open>B\<close> current (vouchers required, none
  left, no folders), \<open>show_folders_view\<close> finds the folders panel and ends with the
  storage-time panel current and the storage-time button checked.
\<close>

theorem show_folders_view_checks_quota:
  "currentData (example_window\<lparr>combo_current_index := 1\<rparr>) = Some gateway_B
   \<and> folders_views (example_window\<lparr>combo_current_index := 1\<rparr>) gateway_B = Some (FoldersWidget gateway_B)
   \<and> \<not> isl (show_folders_view (example_window\<lparr>combo_current_index := 1\<rparr>))
   \<and> \<not> folders_button_checked (projr (show_folders_view (example_window\<lparr>combo_current_index := 1\<rparr>)))
   \<and> zkaps_button_checked (projr (show_folders_view (example_window\<lparr>combo_current_index := 1\<rparr>)))
   \<and> current_widget (projr (show_folders_view (example_window\<lparr>combo_current_index := 1\<rparr>)))
       = Some (ZKAPWidget gateway_B)"
  by (simp add: show_folders_view_def
      set_current_grid_status_def current_view_def maybe_enable_actions_def
      set_invite_enabled_def currentData_def example_window_def gateway_A_def gateway_B_def gateway_C_def
      MainWindow_init_def feature_enabled_def)

text \<open>
  C10, amended: each of the three view functions returns normally. If the current
  gateway has no panel of that kind (or there is no current gateway), the window is
  unchanged. Otherwise exactly one of the three buttons is checked and its panel is the
  current widget: the one of the selected view, unless the gateway has a folders and a
  storage-time panel, requires vouchers, has none left and has no folders, in which case
  it is the storage-time panel and button.
\<close>

theorem show_view_checked_or_unchanged:
  "case currentData w of
     None \<Rightarrow> show_view k w = Inr w
   | Some g \<Rightarrow>
       (case panel k w g of
          None \<Rightarrow> show_view k w = Inr w
        | Some wd \<Rightarrow>
            (\<exists>w'. show_view k w = Inr w'
               \<and> (if quota_forced w g
                   then current_widget w' = zkap_views w g \<and> checks w' = only_checked Quota
                   else current_widget w' = Some wd \<and> checks w' = only_checked k)))"
proof (cases "currentData w")
  case None
  then show ?thesis by (simp add: show_view_no_gateway)
next
  case (Some g)
  show ?thesis
  proof (cases "panel k w g")
    case None
    then show ?thesis using Some by (simp add: show_view_missing)
  next
    case (Some wd)
    then show ?thesis using \<open>currentData w = Some g\<close> show_view_view[of w g k wd] by auto
  qed
qed

theorem show_view_checked_or_unchanged_witness:
  "currentData example_window = Some gateway_C
   \<and> panel History example_window gateway_C = Some (HistoryView gateway_C)
   \<and> \<not> quota_forced example_window gateway_C
   \<and> (\<exists>w'. show_view History example_window = Inr w'
         \<and> current_widget w' = Some (HistoryView gateway_C) \<and> checks w' = (False, False, True))
   \<and> show_view Quota (example_window\<lparr>zkap_views := Map.empty\<rparr>) = Inr (example_window\<lparr>zkap_views := Map.empty\<rparr>)"
  using show_view_checked_or_unchanged[where w = example_window and k = History]
    show_view_checked_or_unchanged[where w = "example_window\<lparr>zkap_views := Map.empty\<rparr>" and k = Quota]
  by (simp add: currentData_def example_window_def gateway_C_def quota_forced_def only_checked_def)

subsection \<open>Selecting a gateway\<close>

lemma show_view_total:
  assumes "currentData w = Some g"
  shows "\<exists>w'. show_view k w = Inr w' \<and> registry w' = registry w \<and> window_title w' = window_title w"
proof (cases "panel k w g")
  case None
  then show ?thesis using assms by (simp add: show_view_missing)
next
  case (Some wd)
  then show ?thesis using show_view_view[OF assms Some] by auto
qed

lemma show_welcome_dialog_frame:
  "registry (show_welcome_dialog w) = registry w"
  "window_title (show_welcome_dialog w) = window_title w"
  "checks (show_welcome_dialog w) = checks w"
  "history_button_checked (show_welcome_dialog w) = history_button_checked w"
  by (simp_all add: show_welcome_dialog_def registry_def checks_def)

lemma on_grid_selected_unfold:
  "on_grid_selected a i w =
     (let w1 = (if i = int (length (combo_items w)) - 1 then show_welcome_dialog w else w)
      in case currentData w1 of
           None \<Rightarrow> Inr w1
         | Some gateway \<Rightarrow>
             (case show_view (if history_button_checked w1 then History else Folders) w1 of
                Inl e \<Rightarrow> Inl e
              | Inr w2 \<Rightarrow>
                  if multiple_grids_enabled w2 then
                    (case currentData w2 of
                       None \<Rightarrow> Inl AttributeError
                     | Some g2 \<Rightarrow> Inr (w2\<lparr>window_title := a @ '' - '' @ name g2\<rparr>))
                  else Inr w2))"
  by (simp add: on_grid_selected_def Let_def split: option.splits)

text \<open>
  C8, as the claim states it: with a single gateway configured, selecting it leaves the
  window title unchanged. In the window with gateway \<open>A\<close> alone (default settings) the
  title changes from \<open>Gridsync\<close> to \<open>Gridsync - A\<close>.
\<close>

theorem on_grid_selected_single_gateway_title:
  "combo_items single_gateway_window = [Some gateway_A, None, None]
   \<and> window_title single_gateway_window = ''Gridsync''
   \<and> \<not> isl (on_grid_selected ''Gridsync'' 0 single_gateway_window)
   \<and> window_title (projr (on_grid_selected ''Gridsync'' 0 single_gateway_window)) = ''Gridsync - A''"
  by (simp add: on_grid_selected_def show_folders_view_def show_history_view_def
      set_current_grid_status_def current_view_def maybe_enable_actions_def
      set_invite_enabled_def currentData_def single_gateway_window_def gateway_A_def
      show_welcome_dialog_def MainWindow_init_def feature_enabled_def)

text \<open>
  C8, amended: when a gateway is selected, \<open>on_grid_selected\<close> sets the window title to
  the application name, \<open>" - "\<close> and the gateway's name if and only if the feature flag
  \<open>multiple_grids_enabled\<close> is set (the default), however many gateways there are;
  otherwise the title is left unchanged.
\<close>

theorem on_grid_selected_title:
  assumes "currentData w = Some g"
  shows "\<exists>w'. on_grid_selected a i w = Inr w'
           \<and> window_title w' = (if multiple_grids_enabled w then a @ '' - '' @ name g
                                 else window_title w)"
proof -
  define w1 where "w1 = (if i = int (length (combo_items w)) - 1 then show_welcome_dialog w else w)"
  have r1: "registry w1 = registry w" "window_title w1 = window_title w"
    by (simp_all add: w1_def show_welcome_dialog_frame)
  have cd1: "currentData w1 = Some g" using assms currentData_registry[OF r1(1)] by simp
  obtain w2 where w2: "show_view (if history_button_checked w1 then History else Folders) w1 = Inr w2"
      "registry w2 = registry w1" "window_title w2 = window_title w1"
    using show_view_total[OF cd1] by blast
  have cd2: "currentData w2 = Some g" using cd1 currentData_registry[OF w2(2)] by simp
  have m: "multiple_grids_enabled w2 = multiple_grids_enabled w"
    using w2(2) r1(1) by (simp add: registry_def)
  have "on_grid_selected a i w =
     (if multiple_grids_enabled w then Inr (w2\<lparr>window_title := a @ '' - '' @ name g\<rparr>) else Inr w2)"
    unfolding on_grid_selected_unfold w1_def[symmetric] Let_def
    by (simp add: cd1 cd2 w2(1) m)
  then show ?thesis using w2(3) r1(2) by auto
qed

theorem on_grid_selected_title_witness:
  "currentData (example_window\<lparr>combo_current_index := 1\<rparr>) = Some gateway_B
   \<and> multiple_grids_enabled (example_window\<lparr>combo_current_index := 1\<rparr>)
   \<and> (\<exists>w'. on_grid_selected ''Gridsync'' 1 (example_window\<lparr>combo_current_index := 1\<rparr>) = Inr w'
           \<and> window_title w' = ''Gridsync - B'')
   \<and> currentData (example_window\<lparr>multiple_grids_enabled := False\<rparr>) = Some gateway_C
   \<and> (\<exists>w'. on_grid_selected ''Gridsync'' 0 (example_window\<lparr>multiple_grids_enabled := False\<rparr>) = Inr w'
           \<and> window_title w' = ''Gridsync - C'')"
  using on_grid_selected_title[of "example_window\<lparr>combo_current_index := 1\<rparr>" gateway_B "''Gridsync''" 1]
    on_grid_selected_title[of "example_window\<lparr>multiple_grids_enabled := False\<rparr>" gateway_C "''Gridsync''" 0]
  by (simp add: currentData_def example_window_def gateway_B_def gateway_C_def
      MainWindow_init_def feature_enabled_def)

lemma on_grid_selected_view:
  assumes cd: "currentData w = Some g"
    and f: "folders_views w g = Some fv" and h: "history_views w g = Some hv"
    and nq: "\<not> quota_forced w g"
  shows "\<exists>w'. on_grid_selected a i w = Inr w' \<and> registry w' = registry w
           \<and> current_widget w' = Some (if history_button_checked w then hv else fv)
           \<and> checks w' = only_checked (if history_button_checked w then History else Folders)"
proof -
  define w1 where "w1 = (if i = int (length (combo_items w)) - 1 then show_welcome_dialog w else w)"
  define k where "k = (if history_button_checked w then History else Folders)"
  have r1: "registry w1 = registry w" "history_button_checked w1 = history_button_checked w"
    by (simp_all add: w1_def show_welcome_dialog_frame)
  have cd1: "currentData w1 = Some g" using cd currentData_registry[OF r1(1)] by simp
  have p1: "panel k w1 g = Some (if history_button_checked w then hv else fv)"
    using f h by (simp add: k_def panel_registry[OF r1(1)])
  have nq1: "\<not> quota_forced w1 g" using nq quota_forced_registry[OF r1(1)] by simp
  obtain w2 where w2: "show_view k w1 = Inr w2" "registry w2 = registry w1"
      "current_widget w2 = Some (if history_button_checked w then hv else fv)" "checks w2 = only_checked k"
    using show_view_view[OF cd1 p1] nq1 by auto
  have cd2: "currentData w2 = Some g" using cd1 currentData_registry[OF w2(2)] by simp
  have e: "on_grid_selected a i w =
     (if multiple_grids_enabled w2 then Inr (w2\<lparr>window_title := a @ '' - '' @ name g\<rparr>) else Inr w2)"
    unfolding on_grid_selected_unfold w1_def[symmetric] Let_def
    using w2(1) by (simp add: cd1 cd2 r1(2) k_def)
  have t: "registry (w2\<lparr>window_title := a @ '' - '' @ name g\<rparr>) = registry w2"
      "current_widget (w2\<lparr>window_title := a @ '' - '' @ name g\<rparr>) = current_widget w2"
      "checks (w2\<lparr>window_title := a @ '' - '' @ name g\<rparr>) = checks w2"
    by (simp_all add: registry_def checks_def)
  show ?thesis
    using w2(2,3,4) r1(1) t by (auto simp: e k_def)
qed

lemma select_index_view:
  assumes j: "j < length (combo_items w)" and it: "combo_items w ! j = Some g"
    and f: "folders_views w g = Some fv" and h: "history_views w g = Some hv"
    and nq: "\<not> quota_forced w g"
  shows "\<exists>w'. select_index a j w = Inr w'
           \<and> combo_items w' = combo_items w \<and> combo_current_index w' = int j
           \<and> folders_views w' = folders_views w \<and> history_views w' = history_views w
           \<and> zkap_views w' = zkap_views w
           \<and> current_widget w' = Some (if history_button_checked w then hv else fv)
           \<and> checks w' = only_checked (if history_button_checked w then History else Folders)"
proof -
  let ?w0 = "w\<lparr>combo_current_index := int j\<rparr>"
  have cd: "currentData ?w0 = Some g" using j it by (simp add: currentData_def Let_def)
  have nq0: "\<not> quota_forced ?w0 g" using nq by (simp add: quota_forced_def)
  have "\<exists>w'. on_grid_selected a (int j) ?w0 = Inr w' \<and> registry w' = registry ?w0
           \<and> current_widget w' = Some (if history_button_checked ?w0 then hv else fv)
           \<and> checks w' = only_checked (if history_button_checked ?w0 then History else Folders)"
    by (rule on_grid_selected_view[OF cd _ _ nq0]) (simp_all add: f h)
  then show ?thesis
    by (auto simp: select_index_def registry_def)
qed

lemma checks_only_history: "checks w = only_checked k \<Longrightarrow> history_button_checked w = (k = History)"
  by (simp add: checks_def only_checked_def)

lemma reselect_view:
  assumes cur: "combo_current_index w = int i"
    and i: "i < length (combo_items w)" and j: "j < length (combo_items w)"
    and G: "combo_items w ! i = Some G" and H: "combo_items w ! j = Some H" and GH: "G \<noteq> H"
    and fG: "folders_views w G = Some fG" and hG: "history_views w G = Some hG"
    and zG: "zkap_views w G = Some zG"
    and fH: "folders_views w H = Some fH" and hH: "history_views w H = Some hH"
    and nG: "\<not> quota_forced w G" and nH: "\<not> quota_forced w H"
  shows "\<exists>w'. reselect a k i j w = Inr w' \<and> currentData w' = Some G
           \<and> current_widget w' = Some (if k = History then hG else fG)
           \<and> checks w' = only_checked (if k = History then History else Folders)"
proof -
  have cd: "currentData w = Some G" using cur i G by (simp add: currentData_def Let_def)
  have pk: "panel k w G = Some (case k of Folders \<Rightarrow> fG | History \<Rightarrow> hG | Quota \<Rightarrow> zG)"
    using fG hG zG by (cases k) simp_all
  obtain w1 where w1: "show_view k w = Inr w1" "registry w1 = registry w" "checks w1 = only_checked k"
    using show_view_view[OF cd pk] nG by auto
  have r1: "combo_items w1 = combo_items w" "folders_views w1 = folders_views w"
      "history_views w1 = history_views w" "zkap_views w1 = zkap_views w"
    using w1(2) by (simp_all add: registry_def)
  have hc1: "history_button_checked w1 = (k = History)" using w1(3) by (rule checks_only_history)
  have nH1: "\<not> quota_forced w1 H" using nH quota_forced_registry[OF w1(2)] by simp
  obtain w2 where w2: "select_index a j w1 = Inr w2" "combo_items w2 = combo_items w1"
      "folders_views w2 = folders_views w1" "history_views w2 = history_views w1"
      "zkap_views w2 = zkap_views w1"
      "checks w2 = only_checked (if history_button_checked w1 then History else Folders)"
    using select_index_view[of j w1 H fH hH a] j H fH hH nH1 r1 by auto
  have hc2: "history_button_checked w2 = (k = History)"
    using checks_only_history[OF w2(6)] hc1 by simp
  have nG2: "\<not> quota_forced w2 G" using nG w2(3,5) r1 by (simp add: quota_forced_def)
  obtain w3 where w3: "select_index a i w2 = Inr w3" "combo_items w3 = combo_items w2"
      "combo_current_index w3 = int i"
      "current_widget w3 = Some (if history_button_checked w2 then hG else fG)"
      "checks w3 = only_checked (if history_button_checked w2 then History else Folders)"
    using select_index_view[of i w2 G fG hG a] i G fG hG nG2 r1 w2(2,3,4) by auto
  have cd3: "currentData w3 = Some G"
    using w3(2,3) w2(2) r1(1) i G by (simp add: currentData_def Let_def)
  have "reselect a k i j w = Inr w3" by (simp add: reselect_def w1(1) w2(1) w3(1))
  then show ?thesis using cd3 w3(4,5) hc2 by simp
qed

text \<open>
  C2, as the claim states it: the view last chosen for a gateway, also \<open>Quota\<close>, is shown
  again when the gateway is selected again. With gateway \<open>C\<close> current, choosing the
  storage-time view, selecting gateway \<open>A\<close> and selecting \<open>C\<close> again ends in the folders
  view of \<open>C\<close>.
\<close>

theorem reselect_quota_not_restored:
  "currentData example_window = Some gateway_C
   \<and> combo_items example_window ! 2 = Some gateway_A
   \<and> \<not> isl (show_view Quota example_window)
   \<and> current_widget (projr (show_view Quota example_window)) = Some (ZKAPWidget gateway_C)
   \<and> \<not> isl (reselect ''Gridsync'' Quota 0 2 example_window)
   \<and> currentData (projr (reselect ''Gridsync'' Quota 0 2 example_window)) = Some gateway_C
   \<and> current_widget (projr (reselect ''Gridsync'' Quota 0 2 example_window)) = Some (FoldersWidget gateway_C)"
proof -
  have cd: "currentData example_window = Some gateway_C" "combo_items example_window ! 2 = Some gateway_A"
    by (simp_all add: currentData_def example_window_def)
  have z: "panel Quota example_window gateway_C = Some (ZKAPWidget gateway_C)"
    by (simp add: example_window_def gateway_C_def gateway_A_def gateway_B_def)
  have nq: "\<not> quota_forced example_window gateway_C"
    by (simp add: quota_forced_def gateway_C_def)
  obtain w1 where w1: "show_view Quota example_window = Inr w1"
      "current_widget w1 = Some (ZKAPWidget gateway_C)"
    using show_view_view[OF cd(1) z] nq by auto
  have "\<exists>w'. reselect ''Gridsync'' Quota 0 2 example_window = Inr w'
           \<and> currentData w' = Some gateway_C
           \<and> current_widget w' = Some (FoldersWidget gateway_C)
           \<and> checks w' = only_checked Folders"
    using reselect_view[of example_window 0 2 gateway_C gateway_A
      "FoldersWidget gateway_C" "HistoryView gateway_C" "ZKAPWidget gateway_C"
      "FoldersWidget gateway_A" "HistoryView gateway_A" "''Gridsync''" Quota]
    by (simp add: example_window_def gateway_A_def gateway_C_def quota_forced_def)
  then obtain w3 where w3: "reselect ''Gridsync'' Quota 0 2 example_window = Inr w3"
      "currentData w3 = Some gateway_C" "current_widget w3 = Some (FoldersWidget gateway_C)"
    by auto
  show ?thesis using cd w1 w3 by simp
qed

text \<open>
  C2, amended: for two different gateways \<open>G\<close> and \<open>H\<close> of the combo box with registered
  panels, neither of them forced to the storage-time view, if \<open>G\<close> is current and the view
  \<open>k\<close> is chosen, then after selecting \<open>H\<close> and selecting \<open>G\<close> again the current widget is
  the history panel of \<open>G\<close> when \<open>k\<close> is \<open>History\<close> and the folders panel of \<open>G\<close> otherwise
  (for \<open>Folders\<close> and for \<open>Quota\<close>). The view is chosen by the checked state of the one
  history button, not by anything stored per gateway.
\<close>

theorem reselect_restores_folders_or_history:
  assumes "combo_current_index w = int i"
    and "i < length (combo_items w)" and "j < length (combo_items w)"
    and "combo_items w ! i = Some G" and "combo_items w ! j = Some H" and "G \<noteq> H"
    and "folders_views w G = Some fG" and "history_views w G = Some hG"
    and "zkap_views w G = Some zG"
    and "folders_views w H = Some fH" and "history_views w H = Some hH"
    and "\<not> quota_forced w G" and "\<not> quota_forced w H"
  shows "\<exists>w'. reselect a k i j w = Inr w' \<and> currentData w' = Some G
           \<and> current_widget w' = Some (if k = History then hG else fG)
           \<and> checks w' = only_checked (if k = History then History else Folders)"
  using assms by (rule reselect_view)

theorem reselect_restores_folders_or_history_witness:
  "combo_current_index example_window = int 0
   \<and> 0 < length (combo_items example_window) \<and> 2 < length (combo_items example_window)
   \<and> combo_items example_window ! 0 = Some gateway_C \<and> combo_items example_window ! 2 = Some gateway_A
   \<and> gateway_C \<noteq> gateway_A
   \<and> \<not> quota_forced example_window gateway_C \<and> \<not> quota_forced example_window gateway_A
   \<and> (\<exists>w'. reselect ''Gridsync'' History 0 2 example_window = Inr w' \<and> currentData w' = Some gateway_C
           \<and> current_widget w' = Some (HistoryView gateway_C) \<and> checks w' = (False, False, True))"
  using reselect_restores_folders_or_history[of example_window 0 2 gateway_C gateway_A
      "FoldersWidget gateway_C" "HistoryView gateway_C" "ZKAPWidget gateway_C"
      "FoldersWidget gateway_A" "HistoryView gateway_A" "''Gridsync''" History]
  by (simp add: example_window_def gateway_A_def gateway_C_def quota_forced_def only_checked_def)

end
